theory Spec2Isabelle
  imports Main "HOL-Library.AList"
begin

section \<open>Data model of \<open>main.go\<close>\<close>

text \<open>
  The program is the bootstrap of an alerting agent: it parses its flags and configuration,
  waits for the registry (Consul) to answer, discovers services and nodes, starts one goroutine
  per watch and then waits for signals. Everything the program does to the outside world is
  recorded as an \<open>event\<close>; everything the outside world answers is a field of \<open>env\<close>.
\<close>

type_synonym err = string
  \<comment> \<open>a non-nil Go \<open>error\<close>, by its message\<close>

datatype chan = Chan nat
  \<comment> \<open>the identity of a channel made by \<open>make(chan struct{}, 0)\<close>\<close>

datatype client = Client string
  \<comment> \<open>an \<open>*api.Client\<close>, by the address it was configured with\<close>

datatype handler = Handler string
  \<comment> \<open>an alert handler returned by \<open>ParseConfig\<close>, by name\<close>

datatype level = Panic | Fatal | Error | Warn | Info | Debug

text \<open>
  \<open>ServiceConfig\<close> and \<open>Config\<close> are declared in another file of the package; the fields are
  the ones \<open>main.go\<close> reads. Both structs have a field \<open>ChangeThreshold\<close>; the one of
  \<open>ServiceConfig\<close> is called \<open>svcChangeThreshold\<close> here. The method
  \<open>config.getServiceConfig(service)\<close> is a field of the record: it returns \<open>None\<close> for Go's
  \<open>nil\<close>.
\<close>

record ServiceConfig =
  svcChangeThreshold :: int
  DistinctTags :: bool
  IgnoredTags :: "string list"

record Config =
  LogLevel :: string
  ConsulAddress :: string
  DevMode :: bool
  GlobalMode :: bool
  ChangeThreshold :: int
  getServiceConfig :: "string \<Rightarrow> ServiceConfig option"

record WatchOptions =
  changeThreshold :: int
  client :: client
  handlers :: "handler list"
  stopCh :: "chan option"
  \<comment> \<open>\<open>None\<close> is the nil channel of a field that was never set\<close>

text \<open>\<open>type ShutdownOpts struct { stopCh chan struct{}; count int }\<close>\<close>

record ShutdownOpts =
  shutdownStopCh :: chan
  count :: int

text \<open>The parts of \<open>api.AgentService\<close> and \<open>api.Node\<close> that are read.\<close>

record AgentService =
  ID :: string
  Service :: string
  Tags :: "string list"

record CatalogNode =
  Node :: string
  Address :: string

text \<open>
  A signal is its number (\<open>syscall.Signal\<close> is an \<open>int\<close>); the three constants have their
  Linux values.
\<close>

type_synonym signal = nat

definition SIGINT :: signal where "SIGINT = 2"
definition SIGQUIT :: signal where "SIGQUIT = 3"
definition SIGTERM :: signal where "SIGTERM = 15"

text \<open>The two functions that are started as goroutines, with their arguments.\<close>

datatype call =
    WatchService string string WatchOptions
  | WatchNode string WatchOptions

datatype event =
    Print string
  | Log level string
  | SetLevel level
  | Sleep nat
  | ReadConfig string
  | NewClient string
  | StatusLeader
  | CatalogServices
  | CatalogNodes
  | AgentServices
  | AgentNodeName
  | CheckRegister string string string
  | ServiceRegister string "string list" int string string
  | CheckDeregister string
  | ServiceDeregister string
  | Go call
  | Send chan

text \<open>
  How the process ends: \<open>os.Exit\<close> with a status, blocked for ever in a send on the unbuffered
  stop channel that nobody receives, or waiting for the next signal. A statement either
  returns a value (\<open>Next\<close>) or ends the process (\<open>Halt\<close>).
\<close>

datatype final = Exit int | BlockedOnSend | AwaitingSignal

datatype 'a step = Next 'a | Halt final

type_synonym 'a proc = "event list \<times> 'a step"

text \<open>
  The environment: the parsed flags (\<open>help_flag\<close> is the variable \<open>help\<close> of the source),
  and what each external call answers. \<open>leader n\<close> is the
  error of the \<open>n\<close>-th call of \<open>client.Status().Leader()\<close>, \<open>None\<close> for \<open>nil\<close>. Go maps are
  association lists in the order the \<open>range\<close> loop visits them. \<open>stop_receives\<close> is the number
  of receive operations that the goroutines started by the program perform on the stop
  channel (\<open>WatchService\<close> and \<open>WatchNode\<close> are in another file of the package).
\<close>

record env =
  help_flag :: bool
  config_path :: string
  parse_config :: "err + (Config \<times> handler list)"
  parse_level :: "string \<Rightarrow> err + level"
  new_client :: "err option"
  leader :: "nat \<Rightarrow> err option"
  catalog_services :: "err + (string \<times> string list) list"
  catalog_nodes :: "err + CatalogNode list"
  agent_services :: "err + (string \<times> AgentService) list"
  agent_node_name :: "err + string"
  signals :: "signal list"
  stop_receives :: nat

section \<open>The program\<close>

definition usage :: string where
  "usage =
    ''Usage: consul-alerting [--help] -config=/path/to/config.hcl'' @ [CHR 0x0A, CHR 0x0A] @
    ''Options:'' @ [CHR 0x0A, CHR 0x0A] @
    ''    -config=<path>    Sets the path to a configuration file on disk.'' @ [CHR 0x0A]"

text \<open>
  Modelled from the spec: \<open>contains\<close> is a helper of the package that is not in \<open>main.go\<close>;
  the configuration holds "an ignore-list of tags", and \<open>contains(list, tag)\<close> tests whether
  the tag is in that list.
\<close>

definition contains :: "string list \<Rightarrow> string \<Rightarrow> bool" where
  "contains xs x = (x \<in> set xs)"

subsection \<open>Startup, lines 39 to 66\<close>

definition startup :: "env \<Rightarrow> (Config \<times> handler list \<times> client) proc" where
  "startup e =
    (if help_flag e \<or> config_path e = [] then ([Print usage], Halt (Exit 0))
     else
       (case parse_config e of
          Inl er \<Rightarrow> ([ReadConfig (config_path e), Log Error er], Halt (Exit 2))
        | Inr (config, hs) \<Rightarrow>
            (case parse_level e (LogLevel config) of
               Inl er \<Rightarrow>
                 ([ReadConfig (config_path e), Log Error ''Error setting loglevel '%s': %s''],
                  Halt (Exit 2))
             | Inr lv \<Rightarrow>
                 (case new_client e of
                    Some er \<Rightarrow>
                      ([ReadConfig (config_path e), SetLevel lv,
                        NewClient (ConsulAddress config),
                        Log Fatal ''Error initializing client: ''],
                       Halt (Exit 1))
                  | None \<Rightarrow>
                      ([ReadConfig (config_path e), SetLevel lv,
                        NewClient (ConsulAddress config)],
                       Next (config, hs, Client (ConsulAddress config)))))))"

subsection \<open>Waiting for the registry, lines 67 to 75\<close>

text \<open>
  The loop has no bound: it is left only by a call of \<open>Leader\<close> that returns no error. The
  result is the trace of the loop, \<open>None\<close> when the loop never ends.
\<close>

partial_function (option) connect :: "(nat \<Rightarrow> err option) \<Rightarrow> nat \<Rightarrow> event list option" where
  "connect ld n =
    (case ld n of
       None \<Rightarrow> Some [StatusLeader]
     | Some er \<Rightarrow>
         Option.bind (connect ld (n + 1))
           (\<lambda>es. Some ([StatusLeader, Log Error ''Error connecting to Consul: '',
                        Log Error ''Retrying in 10s...'', Sleep 10] @ es)))"

declare connect.simps [code]

subsection \<open>Test fixtures, lines 217 to 245\<close>

definition registerTestServices :: "client \<Rightarrow> event list" where
  "registerTestServices cl =
    [CheckRegister ''memory usage'' ''exit $(shuf -i 0-2 -n 1)'' ''20s'',
     ServiceRegister ''redis'' [''alpha'', ''beta''] 2000 ''exit $(shuf -i 0-2 -n 1)'' ''10s'',
     ServiceRegister ''nginx'' [''gamma'', ''delta''] 3000 ''exit $(shuf -i 0-2 -n 1)'' ''8s'']"

subsection \<open>Discovery, lines 81 to 123\<close>

definition discover :: "env \<Rightarrow> Config \<Rightarrow> ((string \<times> string list) list \<times> string list) proc" where
  "discover e config =
    (if GlobalMode config then
       (case catalog_services e of
          Inl er \<Rightarrow>
            ([Log Info ''Running in global mode, monitoring all nodes/services'',
              Log Info ''Discovering services to watch from catalog'', CatalogServices,
              Log Fatal ''Error initializing services: ''],
             Halt (Exit 1))
        | Inr services \<Rightarrow>
            (case catalog_nodes e of
               Inr allNodes \<Rightarrow>
                 ([Log Info ''Running in global mode, monitoring all nodes/services'',
                   Log Info ''Discovering services to watch from catalog'', CatalogServices,
                   Log Info ''Discovering nodes to watch from catalog'', CatalogNodes],
                  Next (services, foldl (\<lambda>nodes node. nodes @ [Node node]) [] allNodes))
             | Inl er \<Rightarrow>
                 ([Log Info ''Running in global mode, monitoring all nodes/services'',
                   Log Info ''Discovering services to watch from catalog'', CatalogServices,
                   Log Info ''Discovering nodes to watch from catalog'', CatalogNodes,
                   Log Error ''Error getting nodes from catalog: %s''],
                  Next (services, []))))
     else
       (case agent_services e of
          Inl er \<Rightarrow>
            ([Log Info ''Running in local mode, monitoring local agent's nodes/services'',
              Log Info ''Discovering services to watch on local agent'', AgentServices,
              Log Fatal ''Error initializing services: ''],
             Halt (Exit 1))
        | Inr serviceMap \<Rightarrow>
            (let services =
                   foldl (\<lambda>m (k, c). AList.update (Service c) (Tags c) m) [] serviceMap
             in case agent_node_name e of
                  Inr node \<Rightarrow>
                    ([Log Info ''Running in local mode, monitoring local agent's nodes/services'',
                      Log Info ''Discovering services to watch on local agent'', AgentServices,
                      Log Info ''Watching local node'', AgentNodeName],
                     Next (services, [node]))
                | Inl er \<Rightarrow>
                    ([Log Info ''Running in local mode, monitoring local agent's nodes/services'',
                      Log Info ''Discovering services to watch on local agent'', AgentServices,
                      Log Info ''Watching local node'', AgentNodeName,
                      Log Error ''Error getting local node name: %s''],
                     Next (services, [])))))"

subsection \<open>Starting the watches, lines 125 to 171\<close>

text \<open>
  Each loop takes the \<open>ShutdownOpts\<close> and returns the events of the loop with the
  \<open>ShutdownOpts\<close> as the loop leaves it. \<open>count\<close> is a Go \<open>int\<close> of 64 bits, incremented once
  per goroutine started: it is an \<open>int\<close> here, a process cannot hold \<open>2 ^ 62\<close> goroutines.
\<close>

fun watch_tags ::
  "string \<Rightarrow> ServiceConfig \<Rightarrow> client \<Rightarrow> handler list \<Rightarrow> string list \<Rightarrow> ShutdownOpts
    \<Rightarrow> event list \<times> ShutdownOpts" where
  "watch_tags service serviceConfig cl hs [] shutdownOpts = ([], shutdownOpts)"
| "watch_tags service serviceConfig cl hs (tag # tags) shutdownOpts =
    (if \<not> contains (IgnoredTags serviceConfig) tag then
       (case watch_tags service serviceConfig cl hs tags
               (shutdownOpts\<lparr>count := count shutdownOpts + 1\<rparr>) of
          (es, so) \<Rightarrow>
            (Go (WatchService service tag
                  \<lparr>changeThreshold = svcChangeThreshold serviceConfig, client = cl,
                   handlers = hs, stopCh = Some (shutdownStopCh shutdownOpts)\<rparr>) # es, so))
     else watch_tags service serviceConfig cl hs tags shutdownOpts)"

fun watch_services ::
  "Config \<Rightarrow> client \<Rightarrow> handler list \<Rightarrow> (string \<times> string list) list \<Rightarrow> ShutdownOpts
    \<Rightarrow> event list \<times> ShutdownOpts" where
  "watch_services config cl hs [] shutdownOpts = ([], shutdownOpts)"
| "watch_services config cl hs ((service, tags) # rest) shutdownOpts =
    (let serviceConfig = getServiceConfig config service in
     case
       (if serviceConfig \<noteq> None \<and> length tags > 0 \<and> DistinctTags (the serviceConfig) then
          watch_tags service (the serviceConfig) cl hs tags shutdownOpts
        else
          ([Go (WatchService service ''''
                 \<lparr>changeThreshold = ChangeThreshold config, client = cl,
                  handlers = hs, stopCh = Some (shutdownStopCh shutdownOpts)\<rparr>)],
           shutdownOpts\<lparr>count := count shutdownOpts + 1\<rparr>))
     of (es, so) \<Rightarrow>
       (case watch_services config cl hs rest so of
          (es', so') \<Rightarrow> (Log Info ''Service found: %s, tags: %v'' # es @ es', so')))"

fun watch_nodes ::
  "Config \<Rightarrow> client \<Rightarrow> handler list \<Rightarrow> string list \<Rightarrow> ShutdownOpts
    \<Rightarrow> event list \<times> ShutdownOpts" where
  "watch_nodes config cl hs [] shutdownOpts = ([], shutdownOpts)"
| "watch_nodes config cl hs (node # nodes) shutdownOpts =
    (let opts = \<lparr>changeThreshold = ChangeThreshold config, client = cl,
                 handlers = hs, stopCh = None\<rparr>
     in case
          (if GlobalMode config then
             (opts\<lparr>stopCh := Some (shutdownStopCh shutdownOpts)\<rparr>,
              shutdownOpts\<lparr>count := count shutdownOpts + 1\<rparr>)
           else (opts, shutdownOpts))
        of (opts', so) \<Rightarrow>
          (case watch_nodes config cl hs nodes so of
             (es, so') \<Rightarrow> (Go (WatchNode node opts') # es, so')))"

definition start_watches ::
  "Config \<Rightarrow> client \<Rightarrow> handler list \<Rightarrow> (string \<times> string list) list \<Rightarrow> string list
    \<Rightarrow> event list \<times> ShutdownOpts" where
  "start_watches config cl hs services nodes =
    (let shutdownOpts = \<lparr>shutdownStopCh = Chan 0, count = 0\<rparr> in
     case watch_services config cl hs services shutdownOpts of
       (es, so) \<Rightarrow>
         (case watch_nodes config cl hs nodes so of
            (es', so') \<Rightarrow> (es @ Log Info ''Nodes found: %v'' # es', so')))"

subsection \<open>Shutdown, lines 201 to 215\<close>

text \<open>
  The stop channel has no buffer: a send returns when a goroutine receives it, and blocks for
  ever when none does. \<open>rcv\<close> is the number of receives still to come; \<open>Send\<close> records a send
  that returned.
\<close>

function send_loop :: "int \<Rightarrow> int \<Rightarrow> chan \<Rightarrow> nat \<Rightarrow> unit proc" where
  "send_loop i n ch rcv =
    (if i < n then
       (case rcv of
          0 \<Rightarrow> ([], Halt BlockedOnSend)
        | Suc r \<Rightarrow> (case send_loop (i + 1) n ch r of (es, res) \<Rightarrow> (Send ch # es, res)))
     else ([], Next ()))"
  by pat_completeness auto
termination
  by (relation "measure (\<lambda>(i, n, ch, rcv). nat (n - i))") auto

declare send_loop.simps [simp del]

definition shutdown :: "client \<Rightarrow> Config \<Rightarrow> ShutdownOpts \<Rightarrow> nat \<Rightarrow> unit proc" where
  "shutdown cl config opts rcv =
    (case send_loop 0 (count opts * 2) (shutdownStopCh opts) rcv of
       (es, res) \<Rightarrow>
         (Log Info ''Got interrupt signal, shutting down'' #
          (if DevMode config then
             [CheckDeregister ''memory usage'', ServiceDeregister ''redis'',
              ServiceDeregister ''nginx'']
           else []) @
          Log Info ''Releasing locks...'' # es,
          (case res of Halt h \<Rightarrow> Halt h | Next u \<Rightarrow> Halt (Exit 0))))"

subsection \<open>The signal loop, lines 173 to 192\<close>

definition handle_signal :: "client \<Rightarrow> Config \<Rightarrow> ShutdownOpts \<Rightarrow> nat \<Rightarrow> signal \<Rightarrow> unit proc" where
  "handle_signal cl config shutdownOpts rcv sig =
    (if sig = SIGINT then shutdown cl config shutdownOpts rcv
     else if sig = SIGTERM then shutdown cl config shutdownOpts rcv
     else if sig = SIGQUIT then shutdown cl config shutdownOpts rcv
     else ([Log Error ''Unknown signal.''], Next ()))"

fun signal_loop ::
  "client \<Rightarrow> Config \<Rightarrow> ShutdownOpts \<Rightarrow> nat \<Rightarrow> signal list \<Rightarrow> event list \<times> final" where
  "signal_loop cl config shutdownOpts rcv [] = ([], AwaitingSignal)"
| "signal_loop cl config shutdownOpts rcv (sig # sigs) =
    (case handle_signal cl config shutdownOpts rcv sig of
       (es, Halt h) \<Rightarrow> (es, h)
     | (es, Next u) \<Rightarrow>
         (case signal_loop cl config shutdownOpts rcv sigs of (es', h) \<Rightarrow> (es @ es', h)))"

subsection \<open>\<open>main\<close>\<close>

definition run :: "env \<Rightarrow> Config \<Rightarrow> handler list \<Rightarrow> client \<Rightarrow> event list \<times> final" where
  "run e config hs cl =
    (case discover e config of
       (es1, Halt h) \<Rightarrow> ((if DevMode config then registerTestServices cl else []) @ es1, h)
     | (es1, Next (services, nodes)) \<Rightarrow>
         (case start_watches config cl hs services nodes of
            (es2, shutdownOpts) \<Rightarrow>
              (case signal_loop cl config shutdownOpts (stop_receives e) (signals e) of
                 (es3, h) \<Rightarrow>
                   ((if DevMode config then registerTestServices cl else []) @ es1 @ es2 @ es3,
                    h))))"

definition main :: "env \<Rightarrow> (event list \<times> final) option" where
  "main e =
    (case startup e of
       (es, Halt h) \<Rightarrow> Some (es, h)
     | (es, Next (config, hs, cl)) \<Rightarrow>
         (case connect (leader e) 0 of
            None \<Rightarrow> None
          | Some es' \<Rightarrow>
              (case run e config hs cl of (es'', h) \<Rightarrow> Some (es @ es' @ es'', h))))"

section \<open>Reading a trace\<close>

text \<open>The goroutines a trace starts, in the order of their \<open>go\<close> statements.\<close>

fun watches :: "event list \<Rightarrow> call list" where
  "watches [] = []"
| "watches (Go c # es) = c # watches es"
| "watches (e # es) = watches es"

fun call_opts :: "call \<Rightarrow> WatchOptions" where
  "call_opts (WatchService service tag opts) = opts"
| "call_opts (WatchNode node opts) = opts"






text \<open>The test fixtures a trace registers with the agent, and the ones it deregisters.\<close>

datatype fixture = CheckFixture string | ServiceFixture string

fun registered :: "event list \<Rightarrow> fixture list" where
  "registered [] = []"
| "registered (CheckRegister n s i # es) = CheckFixture n # registered es"
| "registered (ServiceRegister n ts p s i # es) = ServiceFixture n # registered es"
| "registered (e # es) = registered es"

fun deregistered :: "event list \<Rightarrow> fixture list" where
  "deregistered [] = []"
| "deregistered (CheckDeregister n # es) = CheckFixture n # deregistered es"
| "deregistered (ServiceDeregister n # es) = ServiceFixture n # deregistered es"
| "deregistered (e # es) = deregistered es"

text \<open>
  The goroutines that the loops of lines 130 to 171 start for one service and for one node,
  written without the loop state; \<open>watch_services_result\<close> and \<open>watch_nodes_result\<close> below
  prove that the loops start exactly these.
\<close>

definition tag_watch ::
  "string \<Rightarrow> ServiceConfig \<Rightarrow> client \<Rightarrow> handler list \<Rightarrow> chan \<Rightarrow> string \<Rightarrow> call" where
  "tag_watch service sc cl hs ch tag =
    WatchService service tag
      \<lparr>changeThreshold = svcChangeThreshold sc, client = cl, handlers = hs, stopCh = Some ch\<rparr>"

definition whole_watch :: "Config \<Rightarrow> client \<Rightarrow> handler list \<Rightarrow> chan \<Rightarrow> string \<Rightarrow> call" where
  "whole_watch config cl hs ch service =
    WatchService service []
      \<lparr>changeThreshold = ChangeThreshold config, client = cl, handlers = hs, stopCh = Some ch\<rparr>"

definition service_calls ::
  "Config \<Rightarrow> client \<Rightarrow> handler list \<Rightarrow> chan \<Rightarrow> string \<times> string list \<Rightarrow> call list" where
  "service_calls config cl hs ch p =
    (case p of (service, tags) \<Rightarrow>
      (case getServiceConfig config service of
         None \<Rightarrow> [whole_watch config cl hs ch service]
       | Some sc \<Rightarrow>
           if tags \<noteq> [] \<and> DistinctTags sc then
             map (tag_watch service sc cl hs ch) (filter (\<lambda>t. t \<notin> set (IgnoredTags sc)) tags)
           else [whole_watch config cl hs ch service]))"

definition node_call :: "Config \<Rightarrow> client \<Rightarrow> handler list \<Rightarrow> chan \<Rightarrow> string \<Rightarrow> call" where
  "node_call config cl hs ch node =
    WatchNode node
      \<lparr>changeThreshold = ChangeThreshold config, client = cl, handlers = hs,
       stopCh = (if GlobalMode config then Some ch else None)\<rparr>"

section \<open>Example inputs\<close>

text \<open>
  A configuration in local mode with two per-service blocks: \<open>web\<close> overrides the change
  threshold only, \<open>db\<close> is watched tag by tag and ignores the tag \<open>seed\<close>.
\<close>

definition example_lookup :: "string \<Rightarrow> ServiceConfig option" where
  "example_lookup s =
    (if s = ''web'' then Some \<lparr>svcChangeThreshold = 5, DistinctTags = False, IgnoredTags = []\<rparr>
     else if s = ''db'' then
       Some \<lparr>svcChangeThreshold = 30, DistinctTags = True, IgnoredTags = [''seed'']\<rparr>
     else None)"

definition example_config :: Config where
  "example_config =
    \<lparr>LogLevel = ''info'', ConsulAddress = ''127.0.0.1:8500'', DevMode = False,
     GlobalMode = False, ChangeThreshold = 60, getServiceConfig = example_lookup\<rparr>"

definition example_client :: client where
  "example_client = Client ''127.0.0.1:8500''"

definition example_handlers :: "handler list" where
  "example_handlers = [Handler ''stdout'']"

text \<open>An environment whose registry refuses every connection.\<close>

definition refused :: "nat \<Rightarrow> err option" where
  "refused n = Some ''connection refused''"

definition example_level :: "string \<Rightarrow> err + level" where
  "example_level s = (if s = ''info'' then Inr Info else Inl ''not a valid logrus Level'')"

definition unreachable_env :: env where
  "unreachable_env =
    \<lparr>help_flag = False, config_path = ''/etc/alerting.hcl'',
     parse_config = Inr (example_config, example_handlers),
     parse_level = example_level,
     new_client = None,
     leader = refused,
     catalog_services = Inr [],
     catalog_nodes = Inr [],
     agent_services = Inr [],
     agent_node_name = Inr ''node1'',
     signals = [],
     stop_receives = 0\<rparr>"

definition example_global_config :: Config where
  "example_global_config = example_config\<lparr>GlobalMode := True\<rparr>"

text \<open>
  An environment in local mode with the test fixtures switched on: the registry answers the
  second \<open>Leader\<close> call, the agent knows one instance of \<open>web\<close>, and the process receives
  signal 1 and then \<open>SIGTERM\<close>; the goroutines receive two values from the stop channel.
\<close>

definition answers_second :: "nat \<Rightarrow> err option" where
  "answers_second n = (if n = 0 then Some ''connection refused'' else None)"

definition example_dev_env :: env where
  "example_dev_env =
    \<lparr>help_flag = False, config_path = ''/etc/alerting.hcl'',
     parse_config = Inr (example_config\<lparr>DevMode := True\<rparr>, example_handlers),
     parse_level = example_level,
     new_client = None,
     leader = answers_second,
     catalog_services = Inr [],
     catalog_nodes = Inr [],
     agent_services = Inr [(''web1'', \<lparr>ID = ''web1'', Service = ''web'', Tags = [''v1'']\<rparr>)],
     agent_node_name = Inr ''node1'',
     signals = [1, SIGTERM],
     stop_receives = 2\<rparr>"

section \<open>The loops, without their state\<close>

lemma watches_append: "watches (xs @ ys) = watches xs @ watches ys"
  by (induction xs rule: watches.induct) auto

lemma watches_map_Go: "watches (map (\<lambda>x. Go (f x)) xs) = map f xs"
  by (induction xs) auto

lemma watch_tags_result:
  "watch_tags service sc cl hs tags so =
    (map (\<lambda>t. Go (tag_watch service sc cl hs (shutdownStopCh so) t))
       (filter (\<lambda>t. t \<notin> set (IgnoredTags sc)) tags),
     so\<lparr>count := count so + int (length (filter (\<lambda>t. t \<notin> set (IgnoredTags sc)) tags))\<rparr>)"
  by (induction tags arbitrary: so) (auto simp: contains_def tag_watch_def)

lemma watch_services_result:
  "watch_services config cl hs services so = (es, so') \<Longrightarrow>
    watches es = concat (map (service_calls config cl hs (shutdownStopCh so)) services) \<and>
    so' = so\<lparr>count := count so + int (length (watches es))\<rparr>"
proof (induction services arbitrary: so es so')
  case Nil
  then show ?case by simp
next
  case (Cons p services)
  obtain service tags where p: "p = (service, tags)" by (cases p)
  show ?case
  proof (cases "getServiceConfig config service \<noteq> None \<and> 0 < length tags
                \<and> DistinctTags (the (getServiceConfig config service))")
    case True
    then obtain sc where sc: "getServiceConfig config service = Some sc" by auto
    let ?so1 = "so\<lparr>count := count so + int (length (filter (\<lambda>t. t \<notin> set (IgnoredTags sc)) tags))\<rparr>"
    obtain es1 so1 where r: "watch_services config cl hs services ?so1 = (es1, so1)"
      by (cases "watch_services config cl hs services ?so1")
    from Cons.IH [OF r] Cons.prems True sc p r show ?thesis
      by (auto simp: watch_tags_result service_calls_def watches_append watches_map_Go)
  next
    case False
    let ?so1 = "so\<lparr>count := count so + 1\<rparr>"
    obtain es1 so1 where r: "watch_services config cl hs services ?so1 = (es1, so1)"
      by (cases "watch_services config cl hs services ?so1")
    from Cons.IH [OF r] Cons.prems False p r show ?thesis
      by (auto simp: service_calls_def whole_watch_def watches_append split: option.splits)
  qed
qed

lemma watch_nodes_result:
  "watch_nodes config cl hs nodes so = (es, so') \<Longrightarrow>
    es = map (\<lambda>n. Go (node_call config cl hs (shutdownStopCh so) n)) nodes \<and>
    so' = so\<lparr>count := count so + (if GlobalMode config then int (length nodes) else 0)\<rparr>"
proof (induction nodes arbitrary: so es so')
  case Nil
  then show ?case by simp
next
  case (Cons node nodes)
  show ?case
  proof (cases "GlobalMode config")
    case True
    obtain es1 so1
      where r: "watch_nodes config cl hs nodes (so\<lparr>count := count so + 1\<rparr>) = (es1, so1)"
      by (cases "watch_nodes config cl hs nodes (so\<lparr>count := count so + 1\<rparr>)")
    from Cons.IH [OF r] Cons.prems True r show ?thesis
      by (auto simp: node_call_def)
  next
    case False
    obtain es1 so1 where r: "watch_nodes config cl hs nodes so = (es1, so1)"
      by (cases "watch_nodes config cl hs nodes so")
    from Cons.IH [OF r] Cons.prems False r show ?thesis
      by (auto simp: node_call_def)
  qed
qed

lemma start_watches_result:
  assumes "start_watches config cl hs services nodes = (es, so)"
  shows "watches es =
           concat (map (service_calls config cl hs (Chan 0)) services) @
           map (node_call config cl hs (Chan 0)) nodes"
    and "shutdownStopCh so = Chan 0"
    and "count so =
           int (length (concat (map (service_calls config cl hs (Chan 0)) services))) +
           (if GlobalMode config then int (length nodes) else 0)"
proof -
  let ?so0 = "\<lparr>shutdownStopCh = Chan 0, count = 0\<rparr>"
  obtain es1 so1 where r1: "watch_services config cl hs services ?so0 = (es1, so1)"
    by (cases "watch_services config cl hs services ?so0")
  obtain es2 so2 where r2: "watch_nodes config cl hs nodes so1 = (es2, so2)"
    by (cases "watch_nodes config cl hs nodes so1")
  from assms r1 r2 have es: "es = es1 @ Log Info ''Nodes found: %v'' # es2" and so: "so = so2"
    by (simp_all add: start_watches_def)
  note a = watch_services_result [OF r1] and b = watch_nodes_result [OF r2]
  from a have ch1: "shutdownStopCh so1 = Chan 0" by simp
  show "watches es =
           concat (map (service_calls config cl hs (Chan 0)) services) @
           map (node_call config cl hs (Chan 0)) nodes"
    using a b ch1 by (simp add: es watches_append watches_map_Go)
  show "shutdownStopCh so = Chan 0" using b ch1 so by simp
  show "count so =
           int (length (concat (map (service_calls config cl hs (Chan 0)) services))) +
           (if GlobalMode config then int (length nodes) else 0)"
    using a b so by simp
qed

lemma send_loop_result:
  "send_loop i n ch rcv =
    (replicate (min (nat (n - i)) rcv) (Send ch),
     if nat (n - i) \<le> rcv then Next () else Halt BlockedOnSend)"
proof (induction i n ch rcv rule: send_loop.induct)
  case (1 i n ch rcv)
  show ?case
  proof (cases "i < n")
    case False
    then show ?thesis by (subst send_loop.simps) simp
  next
    case True
    show ?thesis
    proof (cases rcv)
      case 0
      with True show ?thesis by (subst send_loop.simps) simp
    next
      case (Suc r)
      from True have n: "nat (n - i) = Suc (nat (n - (i + 1)))" by simp
      from "1.IH" [OF True Suc] True Suc show ?thesis
        by (subst send_loop.simps) (simp add: n)
    qed
  qed
qed

lemma shutdown_result:
  "shutdown cl config opts rcv =
    (Log Info ''Got interrupt signal, shutting down'' #
     (if DevMode config then
        [CheckDeregister ''memory usage'', ServiceDeregister ''redis'', ServiceDeregister ''nginx'']
      else []) @
     Log Info ''Releasing locks...'' #
     replicate (min (nat (count opts * 2)) rcv) (Send (shutdownStopCh opts)),
     if nat (count opts * 2) \<le> rcv then Halt (Exit 0) else Halt BlockedOnSend)"
  by (simp add: shutdown_def send_loop_result)





lemma deregistered_replicate: "deregistered (replicate k (Send ch)) = []"
  by (induction k) auto

lemma registered_replicate: "registered (replicate k (Send ch)) = []"
  by (induction k) auto

section \<open>What a service's and a node's goroutines look like\<close>

lemma service_calls_shape:
  "c \<in> set (service_calls config cl hs ch (service, tags)) \<Longrightarrow>
    \<exists>tag opts. c = WatchService service tag opts \<and> stopCh opts = Some ch"
  by (auto simp: service_calls_def tag_watch_def whole_watch_def split: option.splits if_splits)


lemma filter_registered_services:
  "filter (\<lambda>c. stopCh (call_opts c) = Some ch) (concat (map (service_calls config cl hs ch) services))
    = concat (map (service_calls config cl hs ch) services)"
  by (rule filter_True) (auto dest!: service_calls_shape)

lemma filter_registered_nodes:
  "filter (\<lambda>c. stopCh (call_opts c) = Some ch) (map (node_call config cl hs ch) nodes)
    = (if GlobalMode config then map (node_call config cl hs ch) nodes else [])"
  by (induction nodes) (auto simp: node_call_def)








section \<open>The retry loop\<close>




section \<open>Fixtures in the trace of a run\<close>

lemma registered_append: "registered (xs @ ys) = registered xs @ registered ys"
  by (induction xs rule: registered.induct) auto

lemma deregistered_append: "deregistered (xs @ ys) = deregistered xs @ deregistered ys"
  by (induction xs rule: deregistered.induct) auto

lemma fixtures_map_Go:
  "registered (map (\<lambda>x. Go (f x)) xs) = []" "deregistered (map (\<lambda>x. Go (f x)) xs) = []"
  by (induction xs) auto

lemma fixtures_discover:
  "registered (fst (discover e config)) = []" "deregistered (fst (discover e config)) = []"
  by (simp_all add: discover_def Let_def split: sum.splits)

lemma discover_halts_with_one: "discover e config = (es, Halt h) \<Longrightarrow> h = Exit 1"
  by (auto simp: discover_def Let_def split: sum.splits if_splits)

lemma fixtures_watch_services:
  "watch_services config cl hs services so = (es, so') \<Longrightarrow>
    registered es = [] \<and> deregistered es = []"
proof (induction services arbitrary: so es so')
  case Nil
  then show ?case by simp
next
  case (Cons p services)
  obtain service tags where p: "p = (service, tags)" by (cases p)
  show ?case
  proof (cases "getServiceConfig config service \<noteq> None \<and> 0 < length tags
                \<and> DistinctTags (the (getServiceConfig config service))")
    case True
    then obtain sc where sc: "getServiceConfig config service = Some sc" by auto
    let ?so1 = "so\<lparr>count := count so + int (length (filter (\<lambda>t. t \<notin> set (IgnoredTags sc)) tags))\<rparr>"
    obtain es1 so1 where r: "watch_services config cl hs services ?so1 = (es1, so1)"
      by (cases "watch_services config cl hs services ?so1")
    from Cons.IH [OF r] Cons.prems True sc p r show ?thesis
      by (auto simp: watch_tags_result registered_append deregistered_append fixtures_map_Go)
  next
    case False
    let ?so1 = "so\<lparr>count := count so + 1\<rparr>"
    obtain es1 so1 where r: "watch_services config cl hs services ?so1 = (es1, so1)"
      by (cases "watch_services config cl hs services ?so1")
    from Cons.IH [OF r] Cons.prems False p r show ?thesis
      by (auto simp: registered_append deregistered_append split: option.splits)
  qed
qed

lemma fixtures_start_watches:
  "registered (fst (start_watches config cl hs services nodes)) = [] \<and>
   deregistered (fst (start_watches config cl hs services nodes)) = []"
proof -
  let ?so0 = "\<lparr>shutdownStopCh = Chan 0, count = 0\<rparr>"
  obtain es1 so1 where r1: "watch_services config cl hs services ?so0 = (es1, so1)"
    by (cases "watch_services config cl hs services ?so0")
  obtain es2 so2 where r2: "watch_nodes config cl hs nodes so1 = (es2, so2)"
    by (cases "watch_nodes config cl hs nodes so1")
  from fixtures_watch_services [OF r1] watch_nodes_result [OF r2] r1 r2 show ?thesis
    by (simp add: start_watches_def registered_append deregistered_append fixtures_map_Go)
qed

lemma fixtures_signal_loop:
  "registered (fst (signal_loop cl config so rcv sigs)) = [] \<and>
   snd (signal_loop cl config so rcv sigs) \<in> {Exit 0, BlockedOnSend, AwaitingSignal} \<and>
   (snd (signal_loop cl config so rcv sigs) = Exit 0 \<longrightarrow>
      deregistered (fst (signal_loop cl config so rcv sigs)) =
        (if DevMode config then
           [CheckFixture ''memory usage'', ServiceFixture ''redis'', ServiceFixture ''nginx'']
         else []))"
proof (induction sigs)
  case Nil
  then show ?case by simp
next
  case (Cons sig sigs)
  show ?case
  proof (cases "sig = SIGINT \<or> sig = SIGTERM \<or> sig = SIGQUIT")
    case True
    then show ?thesis
      by (auto simp: handle_signal_def shutdown_result registered_replicate
          deregistered_replicate)
  next
    case False
    with Cons.IH show ?thesis
      by (auto simp: handle_signal_def split: prod.splits)
  qed
qed

lemma fixtures_run:
  assumes "snd (run e config hs cl) = Exit 0"
  shows "deregistered (fst (run e config hs cl)) = registered (fst (run e config hs cl)) \<and>
    registered (fst (run e config hs cl)) =
      (if DevMode config then
         [CheckFixture ''memory usage'', ServiceFixture ''redis'', ServiceFixture ''nginx'']
       else [])"
proof -
  obtain es1 r where d: "discover e config = (es1, r)" by (cases "discover e config")
  from fixtures_discover [of e config] d
  have f1: "registered es1 = []" "deregistered es1 = []" by simp_all
  show ?thesis
  proof (cases r)
    case (Halt h)
    with discover_halts_with_one [of e config es1 h] d assms show ?thesis
      by (simp add: run_def)
  next
    case (Next sn)
    obtain services nodes where sn: "sn = (services, nodes)" by (cases sn)
    obtain es2 so where s: "start_watches config cl hs services nodes = (es2, so)"
      by (cases "start_watches config cl hs services nodes")
    obtain es3 h where l: "signal_loop cl config so (stop_receives e) (signals e) = (es3, h)"
      by (cases "signal_loop cl config so (stop_receives e) (signals e)")
    from fixtures_start_watches [of config cl hs services nodes] s
    have f2: "registered es2 = []" "deregistered es2 = []" by simp_all
    from d Next sn s l assms have h: "h = Exit 0" by (simp add: run_def)
    from fixtures_signal_loop [of cl config so "stop_receives e" "signals e"] l h
    have f3: "registered es3 = []"
      "deregistered es3 =
        (if DevMode config then
           [CheckFixture ''memory usage'', ServiceFixture ''redis'', ServiceFixture ''nginx'']
         else [])"
      by simp_all
    from d Next sn s l f1 f2 f3 show ?thesis
      by (simp add: run_def registered_append deregistered_append registerTestServices_def)
  qed
qed

section \<open>The example inputs, evaluated\<close>


lemma example_start:
  "start_watches example_global_config example_client example_handlers
      [(''db'', [''a'', ''seed'']), (''web'', [''v1''])] [''node1''] =
    ([Log Info ''Service found: %s, tags: %v'',
      Go (WatchService ''db'' ''a''
           \<lparr>changeThreshold = 30, client = example_client, handlers = example_handlers,
            stopCh = Some (Chan 0)\<rparr>),
      Log Info ''Service found: %s, tags: %v'',
      Go (WatchService ''web'' []
           \<lparr>changeThreshold = 60, client = example_client, handlers = example_handlers,
            stopCh = Some (Chan 0)\<rparr>),
      Log Info ''Nodes found: %v'',
      Go (WatchNode ''node1''
           \<lparr>changeThreshold = 60, client = example_client, handlers = example_handlers,
            stopCh = Some (Chan 0)\<rparr>)],
     \<lparr>shutdownStopCh = Chan 0, count = 3\<rparr>)"
  by (simp add: start_watches_def example_global_config_def example_config_def
      example_lookup_def contains_def)

lemma example_dev_run_exits:
  "snd (run example_dev_env (example_config\<lparr>DevMode := True\<rparr>) example_handlers example_client)
    = Exit 0"
  by (simp add: run_def example_dev_env_def discover_def example_config_def start_watches_def
      example_lookup_def handle_signal_def shutdown_result SIGINT_def SIGTERM_def SIGQUIT_def)

section \<open>A whole run\<close>

text \<open>
  The goroutines of a run are those of \<open>start_watches\<close> on the discovery result, and the
  example environment runs from the flags to the exit.
\<close>

lemma watches_replicate_Send: "watches (replicate k (Send ch)) = []"
  by (induction k) auto

lemma watches_discover: "watches (fst (discover e config)) = []"
  by (simp add: discover_def Let_def split: sum.splits)

lemma watches_signal_loop: "watches (fst (signal_loop cl config so rcv sigs)) = []"
proof (induction sigs)
  case Nil
  then show ?case by simp
next
  case (Cons sig sigs)
  then show ?case
    by (auto simp: handle_signal_def shutdown_result watches_append watches_replicate_Send
        split: prod.splits step.splits)
qed

lemma watches_run:
  "watches (fst (run e config hs cl)) =
    (case snd (discover e config) of
       Halt h \<Rightarrow> []
     | Next (services, nodes) \<Rightarrow> watches (fst (start_watches config cl hs services nodes)))"
proof -
  obtain es1 r where d: "discover e config = (es1, r)" by (cases "discover e config")
  with watches_discover [of e config] have w1: "watches es1 = []" by simp
  show ?thesis
  proof (cases r)
    case (Halt h)
    with d w1 show ?thesis
      by (simp add: run_def watches_append registerTestServices_def)
  next
    case (Next sn)
    obtain services nodes where sn: "sn = (services, nodes)" by (cases sn)
    obtain es2 so where s: "start_watches config cl hs services nodes = (es2, so)"
      by (cases "start_watches config cl hs services nodes")
    obtain es3 h where l: "signal_loop cl config so (stop_receives e) (signals e) = (es3, h)"
      by (cases "signal_loop cl config so (stop_receives e) (signals e)")
    with watches_signal_loop [of cl config so "stop_receives e" "signals e"]
    have w3: "watches es3 = []" by simp
    from d Next sn s l w1 w3 show ?thesis
      by (simp add: run_def watches_append registerTestServices_def)
  qed
qed

lemma main_example_dev_env:
  "main example_dev_env =
    Some
     ([ReadConfig ''/etc/alerting.hcl'', SetLevel Info, NewClient ''127.0.0.1:8500'',
       StatusLeader, Log Error ''Error connecting to Consul: '',
       Log Error ''Retrying in 10s...'', Sleep 10, StatusLeader,
       CheckRegister ''memory usage'' ''exit $(shuf -i 0-2 -n 1)'' ''20s'',
       ServiceRegister ''redis'' [''alpha'', ''beta''] 2000 ''exit $(shuf -i 0-2 -n 1)'' ''10s'',
       ServiceRegister ''nginx'' [''gamma'', ''delta''] 3000 ''exit $(shuf -i 0-2 -n 1)'' ''8s'',
       Log Info ''Running in local mode, monitoring local agent's nodes/services'',
       Log Info ''Discovering services to watch on local agent'', AgentServices,
       Log Info ''Watching local node'', AgentNodeName,
       Log Info ''Service found: %s, tags: %v'',
       Go (WatchService ''web'' []
            \<lparr>changeThreshold = 60, client = example_client, handlers = example_handlers,
             stopCh = Some (Chan 0)\<rparr>),
       Log Info ''Nodes found: %v'',
       Go (WatchNode ''node1''
            \<lparr>changeThreshold = 60, client = example_client, handlers = example_handlers,
             stopCh = None\<rparr>),
       Log Error ''Unknown signal.'',
       Log Info ''Got interrupt signal, shutting down'',
       CheckDeregister ''memory usage'', ServiceDeregister ''redis'', ServiceDeregister ''nginx'',
       Log Info ''Releasing locks...'', Send (Chan 0), Send (Chan 0)],
      Exit 0)"
proof -
  have s: "startup example_dev_env =
      ([ReadConfig ''/etc/alerting.hcl'', SetLevel Info, NewClient ''127.0.0.1:8500''],
       Next (example_config\<lparr>DevMode := True\<rparr>, example_handlers, example_client))"
    by (simp add: startup_def example_dev_env_def example_config_def example_level_def
        example_client_def)
  have c: "connect (leader example_dev_env) 0 =
      Some [StatusLeader, Log Error ''Error connecting to Consul: '',
            Log Error ''Retrying in 10s...'', Sleep 10, StatusLeader]"
    by (simp add: connect.simps [of _ 0] connect.simps [of _ "Suc 0"] example_dev_env_def
        answers_second_def)
  have r: "run example_dev_env (example_config\<lparr>DevMode := True\<rparr>) example_handlers
        example_client =
      ([CheckRegister ''memory usage'' ''exit $(shuf -i 0-2 -n 1)'' ''20s'',
        ServiceRegister ''redis'' [''alpha'', ''beta''] 2000 ''exit $(shuf -i 0-2 -n 1)'' ''10s'',
        ServiceRegister ''nginx'' [''gamma'', ''delta''] 3000 ''exit $(shuf -i 0-2 -n 1)'' ''8s'',
        Log Info ''Running in local mode, monitoring local agent's nodes/services'',
        Log Info ''Discovering services to watch on local agent'', AgentServices,
        Log Info ''Watching local node'', AgentNodeName,
        Log Info ''Service found: %s, tags: %v'',
        Go (WatchService ''web'' []
             \<lparr>changeThreshold = 60, client = example_client, handlers = example_handlers,
              stopCh = Some (Chan 0)\<rparr>),
        Log Info ''Nodes found: %v'',
        Go (WatchNode ''node1''
             \<lparr>changeThreshold = 60, client = example_client, handlers = example_handlers,
              stopCh = None\<rparr>),
        Log Error ''Unknown signal.'',
        Log Info ''Got interrupt signal, shutting down'',
        CheckDeregister ''memory usage'', ServiceDeregister ''redis'',
        ServiceDeregister ''nginx'',
        Log Info ''Releasing locks...'', Send (Chan 0), Send (Chan 0)],
       Exit 0)"
    by (simp add: run_def example_dev_env_def discover_def example_config_def
        start_watches_def example_lookup_def handle_signal_def shutdown_result
        SIGINT_def SIGTERM_def SIGQUIT_def registerTestServices_def numeral_eq_Suc)
  show ?thesis by (simp add: main_def s c r)
qed

section \<open>The claims\<close>

subsection \<open>C1: which goroutines are registered for shutdown\<close>

text \<open>
  C1, as stated, fails. In local mode the node watch is started with no stop channel and the
  shutdown count is not incremented for it (the guard of line 166): with no service and the
  local node \<open>node1\<close>, one goroutine is started, its \<open>stopCh\<close> is nil and \<open>count\<close> is 0.
\<close>

theorem local_node_watch_not_registered:
  "start_watches example_config example_client example_handlers [] [''node1''] =
    ([Log Info ''Nodes found: %v'',
      Go (WatchNode ''node1''
           \<lparr>changeThreshold = 60, client = example_client, handlers = example_handlers,
            stopCh = None\<rparr>)],
     \<lparr>shutdownStopCh = Chan 0, count = 0\<rparr>)"
  by (simp add: start_watches_def example_config_def)

text \<open>
  C1, amended. Every \<open>WatchService\<close> goroutine, in either mode, carries the shared stop channel
  of the \<open>ShutdownOpts\<close>; a \<open>WatchNode\<close> goroutine carries it in global mode and carries no
  channel in local mode; and the shutdown count is the number of goroutines started with the
  shared stop channel, each counted once.
\<close>

theorem bootstrap_registers_watches:
  assumes "start_watches config cl hs services nodes = (es, so)"
  shows "(\<forall>c\<in>set (watches es).
            case c of
              WatchService service tag opts \<Rightarrow> stopCh opts = Some (shutdownStopCh so)
            | WatchNode node opts \<Rightarrow>
                stopCh opts = (if GlobalMode config then Some (shutdownStopCh so) else None)) \<and>
         count so =
           int (length (filter (\<lambda>c. stopCh (call_opts c) = Some (shutdownStopCh so)) (watches es)))"
proof -
  note r = start_watches_result [OF assms]
  have "\<forall>c\<in>set (watches es).
            case c of
              WatchService service tag opts \<Rightarrow> stopCh opts = Some (Chan 0)
            | WatchNode node opts \<Rightarrow>
                stopCh opts = (if GlobalMode config then Some (Chan 0) else None)"
    unfolding r(1) by (auto dest!: service_calls_shape simp: node_call_def)
  moreover have "count so =
      int (length (filter (\<lambda>c. stopCh (call_opts c) = Some (Chan 0)) (watches es)))"
    unfolding r(1) r(3) by (simp add: filter_registered_services filter_registered_nodes)
  ultimately show ?thesis unfolding r(2) by blast
qed

theorem bootstrap_registers_watches_witness:
  "start_watches example_global_config example_client example_handlers
      [(''db'', [''a'', ''seed'']), (''web'', [''v1''])] [''node1''] =
    ([Log Info ''Service found: %s, tags: %v'',
      Go (WatchService ''db'' ''a''
           \<lparr>changeThreshold = 30, client = example_client, handlers = example_handlers,
            stopCh = Some (Chan 0)\<rparr>),
      Log Info ''Service found: %s, tags: %v'',
      Go (WatchService ''web'' []
           \<lparr>changeThreshold = 60, client = example_client, handlers = example_handlers,
            stopCh = Some (Chan 0)\<rparr>),
      Log Info ''Nodes found: %v'',
      Go (WatchNode ''node1''
           \<lparr>changeThreshold = 60, client = example_client, handlers = example_handlers,
            stopCh = Some (Chan 0)\<rparr>)],
     \<lparr>shutdownStopCh = Chan 0, count = 3\<rparr>) \<and>
   count \<lparr>shutdownStopCh = Chan 0, count = 3\<rparr> = 3"
  using bootstrap_registers_watches [OF example_start] example_start
  by simp

subsection \<open>C2: the number of stop signals\<close>



subsection \<open>C3: the signals\<close>



subsection \<open>C4: a registry that cannot be reached\<close>




subsection \<open>C5: one watch per tag\<close>



subsection \<open>C6: the per-service change threshold\<close>

text \<open>
  C6 against the code. The service \<open>web\<close> has a per-service configuration with the change
  threshold 5 and is watched as a whole; the global threshold is 60. The goroutine started
  for it gets the threshold 60: the branch of lines 147 to 155 reads \<open>config.ChangeThreshold\<close>
  where the branch of lines 136 to 146 reads \<open>serviceConfig.ChangeThreshold\<close>.
\<close>

theorem whole_service_watch_ignores_override:
  "getServiceConfig example_config ''web'' =
     Some \<lparr>svcChangeThreshold = 5, DistinctTags = False, IgnoredTags = []\<rparr> \<and>
   ChangeThreshold example_config = 60 \<and>
   start_watches example_config example_client example_handlers [(''web'', [''v1''])] [] =
    ([Log Info ''Service found: %s, tags: %v'',
      Go (WatchService ''web'' []
           \<lparr>changeThreshold = 60, client = example_client, handlers = example_handlers,
            stopCh = Some (Chan 0)\<rparr>),
      Log Info ''Nodes found: %v''],
     \<lparr>shutdownStopCh = Chan 0, count = 1\<rparr>)"
  by (simp add: start_watches_def example_config_def example_lookup_def)

subsection \<open>C7: the test fixtures\<close>

text \<open>
  C7. With \<open>DevMode\<close> set, \<open>shutdown\<close> deregisters exactly the fixtures that
  \<open>registerTestServices\<close> registers: the check \<open>memory usage\<close> and the services \<open>redis\<close> and
  \<open>nginx\<close>; with \<open>DevMode\<close> unset it deregisters nothing. In a whole run after the registry
  has answered, when the process exits with status 0 the fixtures deregistered in the trace
  are those registered in it: the three with \<open>DevMode\<close>, none without.
\<close>

theorem dev_fixtures_round_trip:
  "(DevMode config \<longrightarrow>
      deregistered (fst (shutdown cl config opts rcv)) = registered (registerTestServices cl) \<and>
      registered (registerTestServices cl) =
        [CheckFixture ''memory usage'', ServiceFixture ''redis'', ServiceFixture ''nginx'']) \<and>
   (\<not> DevMode config \<longrightarrow> deregistered (fst (shutdown cl config opts rcv)) = []) \<and>
   (snd (run e config hs cl) = Exit 0 \<longrightarrow>
      deregistered (fst (run e config hs cl)) = registered (fst (run e config hs cl)) \<and>
      registered (fst (run e config hs cl)) =
        (if DevMode config then
           [CheckFixture ''memory usage'', ServiceFixture ''redis'', ServiceFixture ''nginx'']
         else []))"
  using fixtures_run [of e config hs cl]
  by (simp add: shutdown_result registerTestServices_def deregistered_replicate)

theorem dev_fixtures_round_trip_witness:
  "DevMode (example_config\<lparr>DevMode := True\<rparr>) \<and>
   deregistered (fst (shutdown example_client (example_config\<lparr>DevMode := True\<rparr>)
       \<lparr>shutdownStopCh = Chan 0, count = 1\<rparr> 2)) =
     [CheckFixture ''memory usage'', ServiceFixture ''redis'', ServiceFixture ''nginx''] \<and>
   snd (run example_dev_env (example_config\<lparr>DevMode := True\<rparr>) example_handlers example_client)
     = Exit 0 \<and>
   deregistered (fst (run example_dev_env (example_config\<lparr>DevMode := True\<rparr>)
       example_handlers example_client)) =
     [CheckFixture ''memory usage'', ServiceFixture ''redis'', ServiceFixture ''nginx''] \<and>
   \<not> DevMode example_config \<and>
   deregistered (fst (shutdown example_client example_config
       \<lparr>shutdownStopCh = Chan 0, count = 1\<rparr> 2)) = []"
  using
    dev_fixtures_round_trip
      [of "example_config\<lparr>DevMode := True\<rparr>" example_client
          "\<lparr>shutdownStopCh = Chan 0, count = 1\<rparr>" 2 example_dev_env example_handlers]
    dev_fixtures_round_trip
      [of example_config example_client "\<lparr>shutdownStopCh = Chan 0, count = 1\<rparr>" 2
          example_dev_env example_handlers]
    example_dev_run_exits
  by (simp add: example_config_def)

subsection \<open>C8: one watch per entity\<close>




subsection \<open>C9: the usage text\<close>

text \<open>
  C9. When the program is called with \<open>--help\<close>, or with no \<open>-config\<close> path or an empty
  one, it prints the usage text and exits with status 0; the trace holds nothing else, so
  no configuration was read and the registry was not contacted.
\<close>

theorem help_or_no_config_prints_usage:
  "help_flag e \<or> config_path e = [] \<Longrightarrow> main e = Some ([Print usage], Exit 0)"
  by (simp add: main_def startup_def)

theorem help_or_no_config_prints_usage_witness:
  "(help_flag (unreachable_env\<lparr>config_path := []\<rparr>)
      \<or> config_path (unreachable_env\<lparr>config_path := []\<rparr>) = [])
   \<and> main (unreachable_env\<lparr>config_path := []\<rparr>) = Some ([Print usage], Exit 0)"
  using help_or_no_config_prints_usage [of "unreachable_env\<lparr>config_path := []\<rparr>"]
  by simp

subsection \<open>C10: how a shutdown ends\<close>




end
